theory Spec2Isabelle
  imports Main "HOL-Library.Word" "HOL-Library.Multiset"
begin

unbundle bit_operations_syntax

section \<open>Values shared by the prover and the command-line helpers\<close>

type_synonym byte = "8 word"

text \<open>A \<open>[32]byte\<close> (\<open>Bytes32\<close>, \<open>phase0.Root\<close>) is a list of bytes; \<open>common.Proof\<close> is a
  slice of them, and Go's nil slice is the empty list.\<close>

type_synonym Bytes32 = "byte list"
type_synonym Proof = "Bytes32 list"

text \<open>Go's \<open>error\<close> values. The first five are the error kinds of section 7 of the
  specification; \<open>ErrExternal\<close> is an error raised by a collaborator (RPC client, beacon
  node), \<open>Errorf\<close> is \<open>fmt.Errorf("...: %w", err)\<close>.\<close>

datatype error =
    ErrStateAccess | ErrUnknownFork | ErrIndexOutOfRange | ErrValueTooLarge | ErrInternalTree
  | ErrExternal string
  | Errorf string error

text \<open>A Go call either returns its results or panics (an index out of range, for one).\<close>

datatype 'a outcome = Panics | Returns 'a

text \<open>\<open>phase0.Validator\<close> of go-eth2-client: the beacon-chain validator container.\<close>

record Validator =
  PublicKey :: "byte list"
  WithdrawalCredentials :: "byte list"
  EffectiveBalance :: "64 word"
  Slashed :: bool
  ActivationEligibilityEpoch :: "64 word"
  ActivationEpoch :: "64 word"
  ExitEpoch :: "64 word"
  WithdrawableEpoch :: "64 word"

subsection \<open>SHA-256\<close>

text \<open>\<open>crypto/sha256\<close> of the Go standard library (FIPS 180-4), on 32-bit words. The round
  constants are written in decimal.\<close>

definition K256 :: "32 word list" where
  "K256 = [1116352408, 1899447441, 3049323471, 3921009573, 961987163, 1508970993, 2453635748, 2870763221, 3624381080, 310598401, 607225278, 1426881987, 1925078388, 2162078206, 2614888103, 3248222580, 3835390401, 4022224774, 264347078, 604807628, 770255983, 1249150122, 1555081692, 1996064986, 2554220882, 2821834349, 2952996808, 3210313671, 3336571891, 3584528711, 113926993, 338241895, 666307205, 773529912, 1294757372, 1396182291, 1695183700, 1986661051, 2177026350, 2456956037, 2730485921, 2820302411, 3259730800, 3345764771, 3516065817, 3600352804, 4094571909, 275423344, 430227734, 506948616, 659060556, 883997877, 958139571, 1322822218, 1537002063, 1747873779, 1955562222, 2024104815, 2227730452, 2361852424, 2428436474, 2756734187, 3204031479, 3329325298]"

definition H256 :: "32 word list" where
  "H256 = [1779033703, 3144134277, 1013904242, 2773480762, 1359893119, 2600822924, 528734635, 1541459225]"

definition rotr :: "nat \<Rightarrow> 32 word \<Rightarrow> 32 word" where
  "rotr n x = drop_bit n x OR push_bit (32 - n) x"

definition sha_ch :: "32 word \<Rightarrow> 32 word \<Rightarrow> 32 word \<Rightarrow> 32 word" where
  "sha_ch x y z = (x AND y) XOR (NOT x AND z)"

definition sha_maj :: "32 word \<Rightarrow> 32 word \<Rightarrow> 32 word \<Rightarrow> 32 word" where
  "sha_maj x y z = (x AND y) XOR (x AND z) XOR (y AND z)"

definition big_sigma0 :: "32 word \<Rightarrow> 32 word" where
  "big_sigma0 x = rotr 2 x XOR rotr 13 x XOR rotr 22 x"

definition big_sigma1 :: "32 word \<Rightarrow> 32 word" where
  "big_sigma1 x = rotr 6 x XOR rotr 11 x XOR rotr 25 x"

definition small_sigma0 :: "32 word \<Rightarrow> 32 word" where
  "small_sigma0 x = rotr 7 x XOR rotr 18 x XOR drop_bit 3 x"

definition small_sigma1 :: "32 word \<Rightarrow> 32 word" where
  "small_sigma1 x = rotr 17 x XOR rotr 19 x XOR drop_bit 10 x"

fun be_words :: "byte list \<Rightarrow> 32 word list" where
  "be_words (a # b # c # d # rest) =
     (push_bit 24 (ucast a) OR push_bit 16 (ucast b) OR push_bit 8 (ucast c) OR ucast d) # be_words rest"
| "be_words _ = []"

definition be_bytes :: "32 word \<Rightarrow> byte list" where
  "be_bytes w = [ucast (drop_bit 24 w), ucast (drop_bit 16 w), ucast (drop_bit 8 w), ucast w]"

fun schedule :: "nat \<Rightarrow> 32 word list \<Rightarrow> 32 word list" where
  "schedule 0 w = w"
| "schedule (Suc n) w =
     schedule n (w @ [small_sigma1 (w ! (length w - 2)) + w ! (length w - 7)
                      + small_sigma0 (w ! (length w - 15)) + w ! (length w - 16)])"

fun sha_round :: "32 word list \<Rightarrow> 32 word \<times> 32 word \<Rightarrow> 32 word list" where
  "sha_round [a, b, c, d, e, f, g, h] (k, w) =
     (let t1 = h + big_sigma1 e + sha_ch e f g + k + w;
          t2 = big_sigma0 a + sha_maj a b c
      in [t1 + t2, a, b, c, d + t1, e, f, g])"
| "sha_round s _ = s"

definition compress :: "32 word list \<Rightarrow> 32 word list \<Rightarrow> 32 word list" where
  "compress hs block = map2 (+) hs (foldl sha_round hs (zip K256 (schedule 48 block)))"

fun blocks :: "nat \<Rightarrow> 32 word list \<Rightarrow> 32 word list \<Rightarrow> 32 word list" where
  "blocks 0 hs ws = hs"
| "blocks (Suc n) hs ws = blocks n (compress hs (take 16 ws)) (drop 16 ws)"

definition be_bytes64 :: "64 word \<Rightarrow> byte list" where
  "be_bytes64 w = map (\<lambda>i. ucast (drop_bit (8 * (7 - i)) w)) [0..<8]"

definition sha_pad :: "byte list \<Rightarrow> byte list" where
  "sha_pad m = m @ [128] @ replicate ((119 - length m mod 64) mod 64) 0
                 @ be_bytes64 (word_of_nat (8 * length m))"

definition sha256 :: "byte list \<Rightarrow> byte list" where
  "sha256 m = (let ws = be_words (sha_pad m)
               in concat (map be_bytes (blocks (length ws div 16) H256 ws)))"

section \<open>Command-line helpers (cli/core/utils.go)\<close>

definition ValidatorStatusInactive :: nat where "ValidatorStatusInactive = 0"
definition ValidatorStatusActive :: nat where "ValidatorStatusActive = 1"
definition ValidatorStatusWithdrawn :: nat where "ValidatorStatusWithdrawn = 2"

text \<open>\<open>math.MaxUint64\<close>.\<close>

definition FAR_FUTURE_EPOCH :: "64 word" where
  "FAR_FUTURE_EPOCH = 18446744073709551615"

text \<open>\<open>ValidatorWithIndex\<close>. The validator pointer is taken non-nil, as
  \<open>FindAllValidatorsForEigenpod\<close> emits it (it skips nil entries).\<close>

record ValidatorWithIndex =
  vwi_Validator :: Validator
  vwi_Index :: "64 word"

text \<open>\<open>onchain.IEigenPodValidatorInfo\<close>, the contract binding's struct; the declaration is
  not among the sources, the two fields the helpers read are kept.\<close>

record IEigenPodValidatorInfo =
  info_Status :: "8 word"
  LastCheckpointedAt :: "64 word"

text \<open>The execution-layer client together with the EigenPod binding reached through it:
  \<open>onchain.NewEigenPod\<close> binds the contract at an address (and may fail),
  \<open>ValidatorPubkeyHashToInfo\<close> is the contract call.\<close>

record ethclient =
  NewEigenPod :: "string \<Rightarrow> error option"
  ValidatorPubkeyHashToInfo :: "string \<Rightarrow> byte list \<Rightarrow> IEigenPodValidatorInfo \<times> error option"

text \<open>The body of the loop of \<open>GetOnchainValidatorInfo\<close>: \<open>pubKeyHash\<close> is the hash of the
  public key followed by the sixteen bytes of \<open>zeroes\<close>.\<close>

definition zeroes :: "byte list" where
  "zeroes = replicate 16 0"

definition pubKeyHash :: "ValidatorWithIndex \<Rightarrow> byte list" where
  "pubKeyHash v = sha256 (PublicKey (vwi_Validator v) @ zeroes)"

fun GetOnchainValidatorInfo_loop ::
  "ethclient \<Rightarrow> string \<Rightarrow> ValidatorWithIndex list \<Rightarrow> IEigenPodValidatorInfo list
     \<Rightarrow> IEigenPodValidatorInfo list \<times> error option" where
  "GetOnchainValidatorInfo_loop client eigenpodAddress [] validatorInfo = (validatorInfo, None)"
| "GetOnchainValidatorInfo_loop client eigenpodAddress (v # rest) validatorInfo =
     (case ValidatorPubkeyHashToInfo client eigenpodAddress (pubKeyHash v) of
        (info, Some err) \<Rightarrow> ([], Some (Errorf ''failed to fetch validator eigeninfo'' err))
      | (info, None) \<Rightarrow>
          GetOnchainValidatorInfo_loop client eigenpodAddress rest (validatorInfo @ [info]))"

definition GetOnchainValidatorInfo ::
  "ethclient \<Rightarrow> string \<Rightarrow> ValidatorWithIndex list \<Rightarrow> IEigenPodValidatorInfo list \<times> error option" where
  "GetOnchainValidatorInfo client eigenpodAddress allValidators =
     (case NewEigenPod client eigenpodAddress of
        Some err \<Rightarrow> ([], Some (Errorf ''failed to locate Eigenpod. Is your address correct?'' err))
      | None \<Rightarrow> GetOnchainValidatorInfo_loop client eigenpodAddress allValidators [])"

definition IsAwaitingWithdrawalCredentialProof :: "IEigenPodValidatorInfo \<Rightarrow> Validator \<Rightarrow> bool" where
  "IsAwaitingWithdrawalCredentialProof validatorInfo validator =
     (unat (info_Status validatorInfo) = ValidatorStatusInactive
      \<and> ExitEpoch validator = FAR_FUTURE_EPOCH
      \<and> ActivationEpoch validator \<noteq> FAR_FUTURE_EPOCH)"

text \<open>The loop of \<open>SelectAwaitingCredentialValidators\<close> reads \<open>validators[i]\<close> and
  \<open>validatorInfos[i]\<close> for every index of \<open>validators\<close>; both lists are walked together
  and a missing \<open>validatorInfos[i]\<close> is Go's index panic. The condition is the one written
  inline in the source.\<close>

fun SelectAwaitingCredentialValidators_loop ::
  "ValidatorWithIndex list \<Rightarrow> IEigenPodValidatorInfo list \<Rightarrow> ValidatorWithIndex list
     \<Rightarrow> (ValidatorWithIndex list \<times> error option) outcome" where
  "SelectAwaitingCredentialValidators_loop [] validatorInfos acc = Returns (acc, None)"
| "SelectAwaitingCredentialValidators_loop (validator # rest) [] acc = Panics"
| "SelectAwaitingCredentialValidators_loop (validator # rest) (validatorInfo # infos) acc =
     (if unat (info_Status validatorInfo) = ValidatorStatusInactive
         \<and> ExitEpoch (vwi_Validator validator) = FAR_FUTURE_EPOCH
         \<and> ActivationEpoch (vwi_Validator validator) \<noteq> FAR_FUTURE_EPOCH
      then SelectAwaitingCredentialValidators_loop rest infos (acc @ [validator])
      else SelectAwaitingCredentialValidators_loop rest infos acc)"

definition SelectAwaitingCredentialValidators ::
  "ethclient \<Rightarrow> string \<Rightarrow> ValidatorWithIndex list \<Rightarrow> (ValidatorWithIndex list \<times> error option) outcome" where
  "SelectAwaitingCredentialValidators client eigenpodAddress validators =
     (case GetOnchainValidatorInfo client eigenpodAddress validators of
        (validatorInfos, Some err) \<Rightarrow> Returns ([], Some err)
      | (validatorInfos, None) \<Rightarrow> SelectAwaitingCredentialValidators_loop validators validatorInfos [])"

text \<open>\<open>core.Validator\<close>, the status record of the command-line tool. Its declaration is not
  among the sources; \<open>SortByStatus\<close> reads the three fields kept here.\<close>

record StatusValidator =
  Status :: int
  IsAwaitingActivationQueue :: bool
  Index :: "64 word"

text \<open>\<open>SortByStatus\<close> ranges over a Go map, whose iteration order is not fixed: the argument
  is the list of the map's entries in the order the \<open>range\<close> visits them. The four
  accumulators are threaded through the loop.\<close>

type_synonym status_lists =
  "StatusValidator list \<times> StatusValidator list \<times> StatusValidator list \<times> StatusValidator list"

fun SortByStatus_step :: "status_lists \<Rightarrow> string \<times> StatusValidator \<Rightarrow> status_lists" where
  "SortByStatus_step (awaitingActivationQueueValidators, inactiveValidators, activeValidators,
      withdrawnValidators) (key, validator) =
     (if Status validator = int ValidatorStatusInactive then
        (if IsAwaitingActivationQueue validator
         then (awaitingActivationQueueValidators @ [validator], inactiveValidators, activeValidators,
               withdrawnValidators)
         else (awaitingActivationQueueValidators, inactiveValidators @ [validator], activeValidators,
               withdrawnValidators))
      else if Status validator = int ValidatorStatusActive then
        (awaitingActivationQueueValidators, inactiveValidators, activeValidators @ [validator],
         withdrawnValidators)
      else if Status validator = int ValidatorStatusWithdrawn then
        (awaitingActivationQueueValidators, inactiveValidators, activeValidators,
         withdrawnValidators @ [validator])
      else (awaitingActivationQueueValidators, inactiveValidators, activeValidators,
            withdrawnValidators))"

text \<open>\<open>sort.Slice\<close> with the comparison \<open>xs[i].Index < xs[j].Index\<close>. Go's sort is not
  stable; the model sorts by the key \<open>Index\<close>, and the theorems below use only that the
  result is ordered and is a rearrangement of the argument.\<close>

definition sort_Slice_by_Index :: "StatusValidator list \<Rightarrow> StatusValidator list" where
  "sort_Slice_by_Index xs = sort_key Index xs"

definition SortByStatus :: "(string \<times> StatusValidator) list \<Rightarrow> status_lists" where
  "SortByStatus validators =
     (case foldl SortByStatus_step ([], [], [], []) validators of
        (awaitingActivationQueueValidators, inactiveValidators, activeValidators, withdrawnValidators) \<Rightarrow>
          (awaitingActivationQueueValidators, sort_Slice_by_Index inactiveValidators,
           sort_Slice_by_Index activeValidators, sort_Slice_by_Index withdrawnValidators))"

subsection \<open>Sample inputs of the command-line helpers\<close>

definition sample_validator :: "byte \<Rightarrow> 64 word \<Rightarrow> 64 word \<Rightarrow> Validator" where
  "sample_validator b activation exit_epoch =
     \<lparr>PublicKey = replicate 48 b, WithdrawalCredentials = 1 # replicate 31 0,
      EffectiveBalance = 32000000000, Slashed = False, ActivationEligibilityEpoch = 0,
      ActivationEpoch = activation, ExitEpoch = exit_epoch, WithdrawableEpoch = FAR_FUTURE_EPOCH\<rparr>"

definition sample_validators :: "ValidatorWithIndex list" where
  "sample_validators =
     [\<lparr>vwi_Validator = sample_validator 1 5 FAR_FUTURE_EPOCH, vwi_Index = 10\<rparr>,
      \<lparr>vwi_Validator = sample_validator 2 FAR_FUTURE_EPOCH FAR_FUTURE_EPOCH, vwi_Index = 11\<rparr>,
      \<lparr>vwi_Validator = sample_validator 3 7 FAR_FUTURE_EPOCH, vwi_Index = 12\<rparr>]"

text \<open>A client whose contract knows every validator as inactive and never checkpointed.\<close>

definition sample_client :: ethclient where
  "sample_client =
     \<lparr>NewEigenPod = (\<lambda>a. None),
      ValidatorPubkeyHashToInfo = (\<lambda>a h. (\<lparr>info_Status = 0, LastCheckpointedAt = 0\<rparr>, None))\<rparr>"

definition sample_status_map :: "(string \<times> StatusValidator) list" where
  "sample_status_map =
     [(''0xa1'', \<lparr>Status = 1, IsAwaitingActivationQueue = False, Index = 9\<rparr>),
      (''0xb2'', \<lparr>Status = 0, IsAwaitingActivationQueue = True, Index = 8\<rparr>),
      (''0xc3'', \<lparr>Status = 1, IsAwaitingActivationQueue = False, Index = 3\<rparr>),
      (''0xd4'', \<lparr>Status = 0, IsAwaitingActivationQueue = True, Index = 2\<rparr>),
      (''0xe5'', \<lparr>Status = 7, IsAwaitingActivationQueue = False, Index = 1\<rparr>),
      (''0xf6'', \<lparr>Status = 2, IsAwaitingActivationQueue = False, Index = 4\<rparr>),
      (''0xa7'', \<lparr>Status = 0, IsAwaitingActivationQueue = False, Index = 6\<rparr>),
      (''0xb8'', \<lparr>Status = 0, IsAwaitingActivationQueue = False, Index = 5\<rparr>)]"

section \<open>The proof constructor (ProveValidatorContainers and the functions it calls)\<close>

text \<open>\<open>phase0.BeaconBlockHeader\<close>.\<close>

record BeaconBlockHeader =
  hdr_Slot :: "64 word"
  ProposerIndex :: "64 word"
  ParentRoot :: Bytes32
  StateRoot :: Bytes32
  BodyRoot :: Bytes32

text \<open>The struct \<open>StateRootProof\<close>; its field of the same name is \<open>srp_StateRootProof\<close>.\<close>

record StateRootProof =
  BeaconStateRoot :: Bytes32
  srp_StateRootProof :: Proof

record VerifyValidatorFieldsCallParams =
  OracleTimestamp :: "64 word"
  params_StateRootProof :: "StateRootProof option"
  ValidatorIndices :: "64 word list"
  ValidatorFieldsProofs :: "Proof list"
  ValidatorFields :: "Bytes32 list list"

text \<open>The functions of the repository and of go-eth2-client that the proof constructor calls
  and that are not among the sources are the fields of an environment. \<open>'st\<close> is
  \<open>spec.VersionedBeaconState\<close>, \<open>'c\<close> the state of the receiver \<open>epp\<close> (the only functions
  that are methods of \<open>epp\<close>, and so can read or write its cache, take and return it), \<open>'r\<close> is
  \<open>beacon.BeaconStateTopLevelRoots\<close>. A Go result \<open>(value, err)\<close> is a pair whose second
  component is \<open>None\<close> for \<open>nil\<close>. The validators of the list and the header are taken
  non-nil.\<close>

record ('st, 'c, 'r) env =
  state_Slot :: "'st \<Rightarrow> 64 word \<times> error option"
  state_Validators :: "'st \<Rightarrow> Validator list \<times> error option"
  ComputeBeaconStateTopLevelRoots :: "'c \<Rightarrow> 'st \<Rightarrow> 'r \<times> error option \<times> 'c"
  ProveStateRootAgainstBlockHeader :: "BeaconBlockHeader \<Rightarrow> Proof \<times> error option"
  GetSlotTimestamp :: "'st \<Rightarrow> BeaconBlockHeader \<Rightarrow> 64 word"
  ProveBeaconTopLevelRootAgainstBeaconState :: "'r \<Rightarrow> 64 word \<Rightarrow> Proof \<times> error option"
  ValidatorListIndex :: "64 word"
  ComputeValidatorTree :: "'c \<Rightarrow> 64 word \<Rightarrow> Validator list \<Rightarrow> Bytes32 list list \<times> error option \<times> 'c"
  ComputeMerkleProofFromTree :: "Bytes32 list list \<Rightarrow> 64 word \<Rightarrow> 64 word \<Rightarrow> Proof \<times> error option"
  ValidatorListMerkleSubtreeNumLayers :: "64 word"
  ConvertValidatorToValidatorFields :: "Validator \<Rightarrow> Bytes32 list"

subsection \<open>Length encoding\<close>

text \<open>\<open>int64(len(validators))\<close>: a Go slice has fewer than \<open>2 ^ 63\<close> elements, so the
  conversion changes nothing there; on the unbounded lengths of HOL lists it wraps.\<close>

definition int64 :: "nat \<Rightarrow> int" where
  "int64 n = sint (word_of_nat n :: 64 word)"

fun le_bytes :: "nat \<Rightarrow> nat \<Rightarrow> byte list" where
  "le_bytes 0 n = []"
| "le_bytes (Suc k) n = word_of_nat (n mod 256) # le_bytes k (n div 256)"

text \<open>Reading a byte string as a little-endian number; \<open>u64_le\<close> reads the first eight bytes
  of a chunk as a little-endian \<open>u64\<close>.\<close>

fun le_nat :: "byte list \<Rightarrow> nat" where
  "le_nat [] = 0"
| "le_nat (b # bs) = unat b + 256 * le_nat bs"

definition u64_le :: "Bytes32 \<Rightarrow> nat" where
  "u64_le chunk = le_nat (take 8 chunk)"

text \<open>Modelled from the spec: \<open>pack_u64_le\<close> and \<open>pack_bool\<close> of section 4.1 (the SSZ
  primitives are not among the sources): little-endian 8 bytes, zero-padded right to 32; first
  byte 0 or 1, remainder zero.\<close>

definition pack_u64_le :: "64 word \<Rightarrow> Bytes32" where
  "pack_u64_le x = le_bytes 8 (unat x) @ replicate 24 0"

definition pack_bool :: "bool \<Rightarrow> Bytes32" where
  "pack_bool b = (if b then 1 else 0) # replicate 31 0"

text \<open>Modelled from the spec: \<open>BigToLittleEndian\<close> (\<open>big_to_little_endian_32\<close> of section
  4.1, not among the sources): the conversion of a \<open>big.Int\<close> to the 32-byte chunk holding it
  as a little-endian integer, for the length sibling of list proofs; an input outside the
  \<open>u64\<close> bounds fails (\<open>None\<close>). The source calls it as a function with a single result,
  so a failure cannot come back as an error value: the caller below panics on it.\<close>

definition BigToLittleEndian :: "int \<Rightarrow> Bytes32 option" where
  "BigToLittleEndian n =
     (if 0 \<le> n \<and> n < 2 ^ 64 then Some (le_bytes 8 (nat n) @ replicate 24 0) else None)"

subsection \<open>The functions of the source\<close>

definition ProveValidatorAgainstValidatorList ::
  "('st, 'c, 'r) env \<Rightarrow> 'c \<Rightarrow> 64 word \<Rightarrow> Validator list \<Rightarrow> 64 word
     \<Rightarrow> (Proof \<times> error option \<times> 'c) outcome" where
  "ProveValidatorAgainstValidatorList env epp slot validators validatorIndex =
     (case ComputeValidatorTree env epp slot validators of (validatorTree, err, epp) \<Rightarrow>
      if err \<noteq> None then Returns ([], err, epp) else
      (case ComputeMerkleProofFromTree env validatorTree validatorIndex
              (ValidatorListMerkleSubtreeNumLayers env) of (proof, err) \<Rightarrow>
       if err \<noteq> None then Returns ([], err, epp) else
       (case BigToLittleEndian (int64 (length validators)) of
          None \<Rightarrow> Panics
        | Some validatorListLenLE \<Rightarrow> Returns (proof @ [validatorListLenLE], None, epp))))"

definition ProveValidatorAgainstBeaconState ::
  "('st, 'c, 'r) env \<Rightarrow> 'c \<Rightarrow> 64 word \<Rightarrow> Validator list \<Rightarrow> 'r \<Rightarrow> 64 word
     \<Rightarrow> (Proof \<times> error option \<times> 'c) outcome" where
  "ProveValidatorAgainstBeaconState env epp oracleBeaconStateSlot oracleBeaconStateValidators
       beaconStateTopLevelRoots validatorIndex =
     (case ProveBeaconTopLevelRootAgainstBeaconState env beaconStateTopLevelRoots
              (ValidatorListIndex env) of (validatorListProof, err) \<Rightarrow>
      if err \<noteq> None then Returns ([], err, epp) else
      (case ProveValidatorAgainstValidatorList env epp oracleBeaconStateSlot
               oracleBeaconStateValidators validatorIndex of
         Panics \<Rightarrow> Panics
       | Returns (validatorProof, err, epp) \<Rightarrow>
           if err \<noteq> None then Returns ([], err, epp)
           else Returns (validatorProof @ validatorListProof, None, epp)))"

text \<open>The loop of \<open>ProveValidatorContainers\<close> over \<open>validatorIndices\<close>, from position \<open>i\<close>
  on. The three slices of the result have been made with \<open>len(validatorIndices)\<close> entries and
  are written at \<open>i\<close>; reading \<open>oracleBeaconStateValidators[validatorIndex]\<close> beyond the
  list is Go's index-out-of-range panic.\<close>

fun ProveValidatorContainers_loop ::
  "('st, 'c, 'r) env \<Rightarrow> 64 word \<Rightarrow> Validator list \<Rightarrow> 'r \<Rightarrow> nat \<Rightarrow> 64 word list
     \<Rightarrow> VerifyValidatorFieldsCallParams \<Rightarrow> 'c
     \<Rightarrow> (VerifyValidatorFieldsCallParams option \<times> error option \<times> 'c) outcome" where
  "ProveValidatorContainers_loop env oracleBeaconStateSlot oracleBeaconStateValidators
       beaconStateTopLevelRoots i [] params epp = Returns (Some params, None, epp)"
| "ProveValidatorContainers_loop env oracleBeaconStateSlot oracleBeaconStateValidators
       beaconStateTopLevelRoots i (validatorIndex # rest) params epp =
     (let params = params\<lparr>ValidatorIndices := (ValidatorIndices params)[i := validatorIndex]\<rparr> in
      case ProveValidatorAgainstBeaconState env epp oracleBeaconStateSlot
             oracleBeaconStateValidators beaconStateTopLevelRoots validatorIndex of
        Panics \<Rightarrow> Panics
      | Returns (proof, err, epp) \<Rightarrow>
          (let params = params\<lparr>ValidatorFieldsProofs := (ValidatorFieldsProofs params)[i := proof]\<rparr> in
           if err \<noteq> None then Returns (None, err, epp)
           else if unat validatorIndex < length oracleBeaconStateValidators then
             ProveValidatorContainers_loop env oracleBeaconStateSlot oracleBeaconStateValidators
               beaconStateTopLevelRoots (Suc i) rest
               (params\<lparr>ValidatorFields := (ValidatorFields params)
                   [i := ConvertValidatorToValidatorFields env
                           (oracleBeaconStateValidators ! unat validatorIndex)]\<rparr>)
               epp
           else Panics))"

definition ProveValidatorContainers ::
  "('st, 'c, 'r) env \<Rightarrow> 'c \<Rightarrow> BeaconBlockHeader \<Rightarrow> 'st \<Rightarrow> 64 word list
     \<Rightarrow> (VerifyValidatorFieldsCallParams option \<times> error option \<times> 'c) outcome" where
  "ProveValidatorContainers env epp oracleBlockHeader oracleBeaconState validatorIndices =
     (case state_Slot env oracleBeaconState of (oracleBeaconStateSlot, err) \<Rightarrow>
      if err \<noteq> None then Returns (None, err, epp) else
      (case state_Validators env oracleBeaconState of (oracleBeaconStateValidators, err) \<Rightarrow>
       if err \<noteq> None then Returns (None, err, epp) else
       (let params = \<lparr>OracleTimestamp = 0, params_StateRootProof = None, ValidatorIndices = [],
                       ValidatorFieldsProofs = [], ValidatorFields = []\<rparr>;
            params = params\<lparr>params_StateRootProof :=
                       Some \<lparr>BeaconStateRoot = replicate 32 0, srp_StateRootProof = []\<rparr>\<rparr>
        in case ComputeBeaconStateTopLevelRoots env epp oracleBeaconState of
             (beaconStateTopLevelRoots, err, epp) \<Rightarrow>
        if err \<noteq> None then Returns (None, err, epp) else
        (let params = params\<lparr>params_StateRootProof :=
                 map_option (\<lambda>s. s\<lparr>BeaconStateRoot := StateRoot oracleBlockHeader\<rparr>)
                   (params_StateRootProof params)\<rparr>
         in if err \<noteq> None then Returns (None, err, epp) else
         (case ProveStateRootAgainstBlockHeader env oracleBlockHeader of (stateRootProof, err) \<Rightarrow>
          let params = params\<lparr>params_StateRootProof :=
                 map_option (\<lambda>s. s\<lparr>srp_StateRootProof := stateRootProof\<rparr>)
                   (params_StateRootProof params)\<rparr>
          in if err \<noteq> None then Returns (None, err, epp) else
          (let params = params\<lparr>OracleTimestamp := GetSlotTimestamp env oracleBeaconState oracleBlockHeader\<rparr>;
               params = params\<lparr>ValidatorIndices := replicate (length validatorIndices) 0\<rparr>;
               params = params\<lparr>ValidatorFieldsProofs := replicate (length validatorIndices) []\<rparr>;
               params = params\<lparr>ValidatorFields := replicate (length validatorIndices) []\<rparr>
           in ProveValidatorContainers_loop env oracleBeaconStateSlot oracleBeaconStateValidators
                beaconStateTopLevelRoots 0 validatorIndices params epp))))))"

text \<open>\<open>ProveValidatorFields\<close> returns \<open>(*StateRootProof, common.Proof, error)\<close>.\<close>

definition ProveValidatorFields ::
  "('st, 'c, 'r) env \<Rightarrow> 'c \<Rightarrow> BeaconBlockHeader \<Rightarrow> 'st \<Rightarrow> 64 word
     \<Rightarrow> (StateRootProof option \<times> Proof \<times> error option \<times> 'c) outcome" where
  "ProveValidatorFields env epp oracleBlockHeader oracleBeaconState validatorIndex =
     (case state_Slot env oracleBeaconState of (oracleBeaconStateSlot, err) \<Rightarrow>
      if err \<noteq> None then Returns (None, [], err, epp) else
      (case state_Validators env oracleBeaconState of (oracleBeaconStateValidators, err) \<Rightarrow>
       if err \<noteq> None then Returns (None, [], err, epp) else
       (let stateRootProof = \<lparr>BeaconStateRoot = replicate 32 0, srp_StateRootProof = []\<rparr>
        in case ComputeBeaconStateTopLevelRoots env epp oracleBeaconState of
             (beaconStateTopLevelRoots, err, epp) \<Rightarrow>
        if err \<noteq> None then Returns (None, [], err, epp) else
        (let stateRootProof = stateRootProof\<lparr>BeaconStateRoot := StateRoot oracleBlockHeader\<rparr>
         in if err \<noteq> None then Returns (None, [], err, epp) else
         (case ProveStateRootAgainstBlockHeader env oracleBlockHeader of (p, err) \<Rightarrow>
          let stateRootProof = stateRootProof\<lparr>srp_StateRootProof := p\<rparr>
          in if err \<noteq> None then Returns (None, [], err, epp) else
          (case ProveValidatorAgainstBeaconState env epp oracleBeaconStateSlot
                  oracleBeaconStateValidators beaconStateTopLevelRoots validatorIndex of
             Panics \<Rightarrow> Panics
           | Returns (validatorFieldsProof, err, epp) \<Rightarrow>
               if err \<noteq> None then Returns (None, [], err, epp)
               else Returns (Some stateRootProof, validatorFieldsProof, None, epp)))))))"

text \<open>The two functions as the specification reads them (section 9, open question): the
  \<open>if err != nil\<close> that follows the plain assignment of \<open>BeaconStateRoot\<close> is left out,
  everything else is the source.\<close>

definition ProveValidatorContainers_success_path ::
  "('st, 'c, 'r) env \<Rightarrow> 'c \<Rightarrow> BeaconBlockHeader \<Rightarrow> 'st \<Rightarrow> 64 word list
     \<Rightarrow> (VerifyValidatorFieldsCallParams option \<times> error option \<times> 'c) outcome" where
  "ProveValidatorContainers_success_path env epp oracleBlockHeader oracleBeaconState validatorIndices =
     (case state_Slot env oracleBeaconState of (oracleBeaconStateSlot, err) \<Rightarrow>
      if err \<noteq> None then Returns (None, err, epp) else
      (case state_Validators env oracleBeaconState of (oracleBeaconStateValidators, err) \<Rightarrow>
       if err \<noteq> None then Returns (None, err, epp) else
       (let params = \<lparr>OracleTimestamp = 0, params_StateRootProof = None, ValidatorIndices = [],
                       ValidatorFieldsProofs = [], ValidatorFields = []\<rparr>;
            params = params\<lparr>params_StateRootProof :=
                       Some \<lparr>BeaconStateRoot = replicate 32 0, srp_StateRootProof = []\<rparr>\<rparr>
        in case ComputeBeaconStateTopLevelRoots env epp oracleBeaconState of
             (beaconStateTopLevelRoots, err, epp) \<Rightarrow>
        if err \<noteq> None then Returns (None, err, epp) else
        (let params = params\<lparr>params_StateRootProof :=
                 map_option (\<lambda>s. s\<lparr>BeaconStateRoot := StateRoot oracleBlockHeader\<rparr>)
                   (params_StateRootProof params)\<rparr>
         in
         (case ProveStateRootAgainstBlockHeader env oracleBlockHeader of (stateRootProof, err) \<Rightarrow>
          let params = params\<lparr>params_StateRootProof :=
                 map_option (\<lambda>s. s\<lparr>srp_StateRootProof := stateRootProof\<rparr>)
                   (params_StateRootProof params)\<rparr>
          in if err \<noteq> None then Returns (None, err, epp) else
          (let params = params\<lparr>OracleTimestamp := GetSlotTimestamp env oracleBeaconState oracleBlockHeader\<rparr>;
               params = params\<lparr>ValidatorIndices := replicate (length validatorIndices) 0\<rparr>;
               params = params\<lparr>ValidatorFieldsProofs := replicate (length validatorIndices) []\<rparr>;
               params = params\<lparr>ValidatorFields := replicate (length validatorIndices) []\<rparr>
           in ProveValidatorContainers_loop env oracleBeaconStateSlot oracleBeaconStateValidators
                beaconStateTopLevelRoots 0 validatorIndices params epp))))))"

definition ProveValidatorFields_success_path ::
  "('st, 'c, 'r) env \<Rightarrow> 'c \<Rightarrow> BeaconBlockHeader \<Rightarrow> 'st \<Rightarrow> 64 word
     \<Rightarrow> (StateRootProof option \<times> Proof \<times> error option \<times> 'c) outcome" where
  "ProveValidatorFields_success_path env epp oracleBlockHeader oracleBeaconState validatorIndex =
     (case state_Slot env oracleBeaconState of (oracleBeaconStateSlot, err) \<Rightarrow>
      if err \<noteq> None then Returns (None, [], err, epp) else
      (case state_Validators env oracleBeaconState of (oracleBeaconStateValidators, err) \<Rightarrow>
       if err \<noteq> None then Returns (None, [], err, epp) else
       (let stateRootProof = \<lparr>BeaconStateRoot = replicate 32 0, srp_StateRootProof = []\<rparr>
        in case ComputeBeaconStateTopLevelRoots env epp oracleBeaconState of
             (beaconStateTopLevelRoots, err, epp) \<Rightarrow>
        if err \<noteq> None then Returns (None, [], err, epp) else
        (let stateRootProof = stateRootProof\<lparr>BeaconStateRoot := StateRoot oracleBlockHeader\<rparr>
         in
         (case ProveStateRootAgainstBlockHeader env oracleBlockHeader of (p, err) \<Rightarrow>
          let stateRootProof = stateRootProof\<lparr>srp_StateRootProof := p\<rparr>
          in if err \<noteq> None then Returns (None, [], err, epp) else
          (case ProveValidatorAgainstBeaconState env epp oracleBeaconStateSlot
                  oracleBeaconStateValidators beaconStateTopLevelRoots validatorIndex of
             Panics \<Rightarrow> Panics
           | Returns (validatorFieldsProof, err, epp) \<Rightarrow>
               if err \<noteq> None then Returns (None, [], err, epp)
               else Returns (Some stateRootProof, validatorFieldsProof, None, epp)))))))"

section \<open>Properties of the command-line helpers\<close>

lemma GetOnchainValidatorInfo_loop_ok:
  "GetOnchainValidatorInfo_loop client a vs acc = (infos, None) \<Longrightarrow>
   infos = acc @ map (\<lambda>v. fst (ValidatorPubkeyHashToInfo client a (pubKeyHash v))) vs"
proof (induction vs arbitrary: acc)
  case Nil
  then show ?case by simp
next
  case (Cons v vs)
  obtain info e where call: "ValidatorPubkeyHashToInfo client a (pubKeyHash v) = (info, e)"
    by (cases "ValidatorPubkeyHashToInfo client a (pubKeyHash v)")
  show ?case
  proof (cases e)
    case None
    with Cons.prems call
    have "GetOnchainValidatorInfo_loop client a vs (acc @ [info]) = (infos, None)" by simp
    from Cons.IH [OF this] call show ?thesis by simp
  next
    case (Some err)
    with Cons.prems call show ?thesis by simp
  qed
qed

lemma GetOnchainValidatorInfo_ok:
  "GetOnchainValidatorInfo client a vs = (infos, None) \<Longrightarrow>
   infos = map (\<lambda>v. fst (ValidatorPubkeyHashToInfo client a (pubKeyHash v))) vs"
  using GetOnchainValidatorInfo_loop_ok [of client a vs "[]" infos]
  by (auto simp: GetOnchainValidatorInfo_def split: option.splits)

lemma SelectAwaitingCredentialValidators_loop_eq:
  "length infos = length vs \<Longrightarrow>
   SelectAwaitingCredentialValidators_loop vs infos acc =
     Returns (acc @ map fst (filter (\<lambda>(v, i). IsAwaitingWithdrawalCredentialProof i (vwi_Validator v))
                               (zip vs infos)), None)"
proof (induction vs infos acc rule: SelectAwaitingCredentialValidators_loop.induct)
  case (1 validatorInfos acc)
  then show ?case by simp
next
  case (2 validator rest acc)
  then show ?case by simp
next
  case (3 validator rest validatorInfo infos acc)
  then show ?case by (simp add: IsAwaitingWithdrawalCredentialProof_def)
qed

lemma foldl_SortByStatus_step:
  "foldl SortByStatus_step (a, b, c, d) m =
     (a @ filter (\<lambda>v. Status v = 0 \<and> IsAwaitingActivationQueue v) (map snd m),
      b @ filter (\<lambda>v. Status v = 0 \<and> \<not> IsAwaitingActivationQueue v) (map snd m),
      c @ filter (\<lambda>v. Status v = 1) (map snd m),
      d @ filter (\<lambda>v. Status v = 2) (map snd m))"
proof (induction m arbitrary: a b c d)
  case Nil
  then show ?case by simp
next
  case (Cons kv m)
  obtain k v where kv: "kv = (k, v)" by (cases kv)
  show ?case
    unfolding kv
    by (simp add: Cons.IH ValidatorStatusInactive_def ValidatorStatusActive_def
        ValidatorStatusWithdrawn_def)
qed

lemma status_partition:
  "filter_mset (\<lambda>v. Status v = 0 \<and> IsAwaitingActivationQueue v) M
   + filter_mset (\<lambda>v. Status v = 0 \<and> \<not> IsAwaitingActivationQueue v) M
   + filter_mset (\<lambda>v. Status v = 1) M
   + filter_mset (\<lambda>v. Status v = 2) M
   = filter_mset (\<lambda>v. Status v \<in> {0, 1, 2}) M"
  by (induction M) auto

text \<open>C3. The hash \<open>GetOnchainValidatorInfo\<close> looks a validator up by is SHA-256 of the
  public key followed by exactly sixteen zero bytes: a 64-byte preimage for a 48-byte key. On
  success the returned infos are the contract's answers at these hashes, one per validator, in
  order.\<close>

theorem GetOnchainValidatorInfo_pubkey_hash:
  "pubKeyHash v = sha256 (PublicKey (vwi_Validator v) @ replicate 16 0)
   \<and> (length (PublicKey (vwi_Validator v)) = 48 \<longrightarrow>
        length (PublicKey (vwi_Validator v) @ replicate 16 (0 :: byte)) = 64)
   \<and> (GetOnchainValidatorInfo client a vs = (infos, None) \<longrightarrow>
        infos = map (\<lambda>v. fst (ValidatorPubkeyHashToInfo client a
                     (sha256 (PublicKey (vwi_Validator v) @ replicate 16 0)))) vs)"
  using GetOnchainValidatorInfo_ok [of client a vs infos]
  by (simp add: pubKeyHash_def zeroes_def)

text \<open>C9. Once the on-chain infos have been fetched, \<open>SelectAwaitingCredentialValidators\<close>
  returns exactly the input validators, in input order, whose pair with its info satisfies
  \<open>IsAwaitingWithdrawalCredentialProof\<close>: the inline condition of the loop and the named
  predicate select the same validators.\<close>

theorem SelectAwaitingCredentialValidators_filter:
  assumes "GetOnchainValidatorInfo client a vs = (infos, None)"
  shows "SelectAwaitingCredentialValidators client a vs =
           Returns (map fst (filter (\<lambda>(v, i). IsAwaitingWithdrawalCredentialProof i (vwi_Validator v))
                              (zip vs infos)), None)"
proof -
  have "length infos = length vs"
    using GetOnchainValidatorInfo_ok [OF assms] by simp
  then show ?thesis
    using assms
    by (simp add: SelectAwaitingCredentialValidators_def SelectAwaitingCredentialValidators_loop_eq)
qed

text \<open>C10. \<open>SortByStatus\<close> partitions the validators of the map: the awaiting-activation-queue
  list holds the inactive validators with the flag set, in the order the map was ranged over
  (it is not sorted); the inactive, active and withdrawn lists hold the inactive validators
  without the flag, the active and the withdrawn ones, each in ascending \<open>Index\<close> order;
  together the four lists hold every validator of status 0, 1 or 2 exactly once, and no
  validator of another status.\<close>

theorem SortByStatus_partition:
  assumes "SortByStatus m = (aq, ina, act, wd)"
  shows "aq = filter (\<lambda>v. Status v = 0 \<and> IsAwaitingActivationQueue v) (map snd m)
       \<and> mset ina = filter_mset (\<lambda>v. Status v = 0 \<and> \<not> IsAwaitingActivationQueue v) (mset (map snd m))
       \<and> sorted (map Index ina)
       \<and> mset act = filter_mset (\<lambda>v. Status v = 1) (mset (map snd m))
       \<and> sorted (map Index act)
       \<and> mset wd = filter_mset (\<lambda>v. Status v = 2) (mset (map snd m))
       \<and> sorted (map Index wd)
       \<and> mset aq + mset ina + mset act + mset wd
           = filter_mset (\<lambda>v. Status v \<in> {0, 1, 2}) (mset (map snd m))"
proof -
  let ?vs = "map snd m"
  have aq: "aq = filter (\<lambda>v. Status v = 0 \<and> IsAwaitingActivationQueue v) ?vs"
    and ina: "ina = sort_key Index (filter (\<lambda>v. Status v = 0 \<and> \<not> IsAwaitingActivationQueue v) ?vs)"
    and act: "act = sort_key Index (filter (\<lambda>v. Status v = 1) ?vs)"
    and wd: "wd = sort_key Index (filter (\<lambda>v. Status v = 2) ?vs)"
    using assms
    by (simp_all add: SortByStatus_def foldl_SortByStatus_step sort_Slice_by_Index_def)
  have m_ina: "mset ina = filter_mset (\<lambda>v. Status v = 0 \<and> \<not> IsAwaitingActivationQueue v) (mset ?vs)"
    by (simp add: ina)
  have m_act: "mset act = filter_mset (\<lambda>v. Status v = 1) (mset ?vs)"
    by (simp add: act)
  have m_wd: "mset wd = filter_mset (\<lambda>v. Status v = 2) (mset ?vs)"
    by (simp add: wd)
  have m_aq: "mset aq = filter_mset (\<lambda>v. Status v = 0 \<and> IsAwaitingActivationQueue v) (mset ?vs)"
    by (simp add: aq)
  have total: "mset aq + mset ina + mset act + mset wd
      = filter_mset (\<lambda>v. Status v \<in> {0, 1, 2}) (mset ?vs)"
    unfolding m_aq m_ina m_act m_wd by (rule status_partition)
  have s1: "sorted (map Index ina)" by (simp add: ina)
  have s2: "sorted (map Index act)" by (simp add: act)
  have s3: "sorted (map Index wd)" by (simp add: wd)
  from aq m_ina s1 m_act s2 m_wd s3 total show ?thesis by blast
qed

lemma sample_infos:
  "GetOnchainValidatorInfo sample_client ''0x01'' sample_validators
     = (replicate 3 \<lparr>info_Status = 0, LastCheckpointedAt = 0\<rparr>, None)"
  by (simp add: GetOnchainValidatorInfo_def sample_client_def sample_validators_def
      numeral_3_eq_3)

theorem GetOnchainValidatorInfo_pubkey_hash_witness:
  "length (PublicKey (vwi_Validator (hd sample_validators))) = 48
   \<and> length (PublicKey (vwi_Validator (hd sample_validators)) @ replicate 16 (0 :: byte)) = 64
   \<and> GetOnchainValidatorInfo sample_client ''0x01'' sample_validators
        = (replicate 3 \<lparr>info_Status = 0, LastCheckpointedAt = 0\<rparr>, None)
   \<and> replicate 3 \<lparr>info_Status = 0, LastCheckpointedAt = 0\<rparr>
        = map (\<lambda>v. fst (ValidatorPubkeyHashToInfo sample_client ''0x01''
                  (sha256 (PublicKey (vwi_Validator v) @ replicate 16 0)))) sample_validators"
  using GetOnchainValidatorInfo_pubkey_hash [of "hd sample_validators" sample_client "''0x01''"
      sample_validators "replicate 3 \<lparr>info_Status = 0, LastCheckpointedAt = 0\<rparr>"]
    sample_infos
  by (simp add: sample_validators_def sample_validator_def)

theorem SelectAwaitingCredentialValidators_filter_witness:
  "GetOnchainValidatorInfo sample_client ''0x01'' sample_validators
     = (replicate 3 \<lparr>info_Status = 0, LastCheckpointedAt = 0\<rparr>, None)
   \<and> SelectAwaitingCredentialValidators sample_client ''0x01'' sample_validators
     = Returns ([sample_validators ! 0, sample_validators ! 2], None)"
  using SelectAwaitingCredentialValidators_filter [OF sample_infos] sample_infos
  by (simp add: sample_validators_def sample_validator_def numeral_3_eq_3
      IsAwaitingWithdrawalCredentialProof_def ValidatorStatusInactive_def FAR_FUTURE_EPOCH_def)

lemma sample_sorted:
  "SortByStatus sample_status_map =
     ([\<lparr>Status = 0, IsAwaitingActivationQueue = True, Index = 8\<rparr>,
       \<lparr>Status = 0, IsAwaitingActivationQueue = True, Index = 2\<rparr>],
      [\<lparr>Status = 0, IsAwaitingActivationQueue = False, Index = 5\<rparr>,
       \<lparr>Status = 0, IsAwaitingActivationQueue = False, Index = 6\<rparr>],
      [\<lparr>Status = 1, IsAwaitingActivationQueue = False, Index = 3\<rparr>,
       \<lparr>Status = 1, IsAwaitingActivationQueue = False, Index = 9\<rparr>],
      [\<lparr>Status = 2, IsAwaitingActivationQueue = False, Index = 4\<rparr>])"
  by (simp add: SortByStatus_def sample_status_map_def sort_Slice_by_Index_def
      ValidatorStatusInactive_def ValidatorStatusActive_def ValidatorStatusWithdrawn_def)

theorem SortByStatus_partition_witness:
  "SortByStatus sample_status_map =
     ([\<lparr>Status = 0, IsAwaitingActivationQueue = True, Index = 8\<rparr>,
       \<lparr>Status = 0, IsAwaitingActivationQueue = True, Index = 2\<rparr>],
      [\<lparr>Status = 0, IsAwaitingActivationQueue = False, Index = 5\<rparr>,
       \<lparr>Status = 0, IsAwaitingActivationQueue = False, Index = 6\<rparr>],
      [\<lparr>Status = 1, IsAwaitingActivationQueue = False, Index = 3\<rparr>,
       \<lparr>Status = 1, IsAwaitingActivationQueue = False, Index = 9\<rparr>],
      [\<lparr>Status = 2, IsAwaitingActivationQueue = False, Index = 4\<rparr>])
   \<and> [\<lparr>Status = 0, IsAwaitingActivationQueue = True, Index = 8\<rparr>,
       \<lparr>Status = 0, IsAwaitingActivationQueue = True, Index = 2\<rparr>]
      = filter (\<lambda>v. Status v = 0 \<and> IsAwaitingActivationQueue v) (map snd sample_status_map)
   \<and> sorted (map Index [\<lparr>Status = 0, IsAwaitingActivationQueue = False, Index = 5\<rparr>,
       \<lparr>Status = 0, IsAwaitingActivationQueue = False, Index = 6\<rparr>])
   \<and> \<not> sorted (map Index [\<lparr>Status = 0, IsAwaitingActivationQueue = True, Index = 8\<rparr>,
       \<lparr>Status = 0, IsAwaitingActivationQueue = True, Index = 2\<rparr>])"
proof -
  have unsorted: "\<not> sorted (map Index [\<lparr>Status = 0, IsAwaitingActivationQueue = True, Index = 8\<rparr>,
       \<lparr>Status = 0, IsAwaitingActivationQueue = True, Index = (2 :: 64 word)\<rparr>])"
    by simp
  from SortByStatus_partition [OF sample_sorted] sample_sorted unsorted
  show ?thesis by blast
qed

end
